theory Spec2Isabelle
  imports Main "HOL-Library.Extended_Nat"
begin

section \<open>Data model of \<open>track.ts\<close>\<close>

text \<open>
  Numbers. A JavaScript \<open>number\<close> that holds a frame is modelled as a \<open>nat\<close> (frames index
  the sparse \<open>features\<close> array), \<open>begin\<close> as an \<open>enat\<close> (a frame, or \<open>Infinity\<close>, the
  constructor's default), \<open>end\<close> as a \<open>nat\<close> (the class assigns it \<open>0\<close> or a frame only).
  Bounds and confidences are exact rationals: the rounding of IEEE doubles is not modelled.
\<close>

type_synonym RectBounds = "rat \<times> rat \<times> rat \<times> rat"

text \<open>Values of type \<open>unknown\<close> held in string-keyed objects.\<close>

datatype jsvalue = JNull | JUndefined | JBool bool | JNum rat | JStr string

type_synonym StringKeyObject = "(string \<times> jsvalue) list"

type_synonym ConfidencePair = "string \<times> rat"

text \<open>
  A \<open>GeoJSON.Feature\<close>: \<open>properties.key\<close>, \<open>geometry.type\<close> and the coordinates,
  which the class never inspects.
\<close>

record GeoFeature =
  gkey :: "string option"
  gtype :: string
  gcoordinates :: "rat list"

record Feature =
  frame :: nat
  flick :: "rat option"
  interpolate :: "bool option"
  keyframe :: "bool option"
  bounds :: "RectBounds option"
  geometry :: "GeoFeature list option"
  fishLength :: "rat option"
  attributes :: "StringKeyObject option"
  head :: "(rat \<times> rat) option"
  tail :: "(rat \<times> rat) option"

text \<open>The transport record \<open>TrackData\<close>.\<close>

record TrackData =
  json_trackId :: int
  json_meta :: "StringKeyObject option"
  json_attributes :: StringKeyObject
  json_confidencePairs :: "ConfidencePair list"
  json_features :: "Feature list"
  json_begin :: enat
  json_end :: nat

text \<open>
  What \<open>notify\<close> hands to the notifier as \<open>oldValue\<close>: a feature, the empty object
  \<open>{}\<close>, \<open>undefined\<close>, the pair \<open>[begin, end]\<close>, a list of confidence pairs, or
  \<open>{key, value}\<close>.
\<close>

datatype OldValue =
    OldFeature Feature
  | OldEmptyObject
  | OldUndefined
  | OldBounds enat nat
  | OldPairs "ConfidencePair list"
  | OldAttribute string "jsvalue option"

text \<open>
  The class \<open>Track\<close>. \<open>features\<close> is the sparse array (index = frame, \<open>None\<close> = hole).
  \<open>notifier\<close> says whether a callback is installed, and \<open>notified\<close> is the list of calls
  made to it so far (event name and old value), the only effect a callback has on the model.
\<close>

record Track =
  trackId :: int
  meta :: StringKeyObject
  trackAttributes :: StringKeyObject
  confidencePairs :: "ConfidencePair list"
  features :: "Feature option list"
  featureIndex :: "nat list"
  beginT :: enat
  endT :: nat
  revision :: nat
  notifier :: bool
  notified :: "(string \<times> OldValue) list"

datatype error =
    SparseArrayError
  | KeyframeXorBounds
  | CannotSplit
  | OnlyKeyframe
  | KeyframeRequired
  | IndexError
  | BoundsMisaligned
  | BoundsMissing
  | TypeError
  | NonFinite

section \<open>Sparse arrays\<close>

text \<open>\<open>xs[i]\<close>: a hole and an index past the length both read as \<open>undefined\<close>.\<close>

definition getAt :: "'a option list \<Rightarrow> nat \<Rightarrow> 'a option" where
  "getAt xs i = (if i < length xs then xs ! i else None)"

text \<open>\<open>xs[i] = v\<close>: the array grows with holes up to index \<open>i\<close>.\<close>

definition setAt :: "'a option list \<Rightarrow> nat \<Rightarrow> 'a \<Rightarrow> 'a option list" where
  "setAt xs i v = (xs @ replicate (Suc i - length xs) None)[i := Some v]"

text \<open>\<open>delete xs[i]\<close>: leaves a hole, the length stays.\<close>

definition deleteAt :: "'a option list \<Rightarrow> nat \<Rightarrow> 'a option list" where
  "deleteAt xs i = xs[i := None]"

text \<open>The elements \<open>forEach\<close> visits: the present ones, by ascending index.\<close>

fun present :: "'a option list \<Rightarrow> 'a list" where
  "present [] = []"
| "present (None # xs) = present xs"
| "present (Some x # xs) = x # present xs"

text \<open>\<open>xs.find((a) => a)\<close>: the first present element (a feature object is truthy).\<close>

fun firstPresent :: "'a option list \<Rightarrow> 'a option" where
  "firstPresent [] = None"
| "firstPresent (None # xs) = firstPresent xs"
| "firstPresent (Some x # xs) = Some x"

text \<open>
  \<open>Array.prototype.slice(start, end)\<close> with integer arguments: a negative argument counts
  from the end of the array, and both are clamped to \<open>[0, length]\<close>. Holes are kept.
\<close>

definition relativeIndex :: "nat \<Rightarrow> int \<Rightarrow> nat" where
  "relativeIndex len i = (if i < 0 then nat (max (int len + i) 0) else min (nat i) len)"

definition slice :: "'a list \<Rightarrow> int \<Rightarrow> int \<Rightarrow> 'a list" where
  "slice xs s e =
     (let k = relativeIndex (length xs) s; fin = relativeIndex (length xs) e
      in take (fin - k) (drop k xs))"

text \<open>A value used as a condition: an optional boolean is truthy only when it is \<open>true\<close>.\<close>

definition truthy :: "bool option \<Rightarrow> bool" where
  "truthy b = (b = Some True)"

section \<open>\<open>listUtils\<close>\<close>

text \<open>
  Modelled from the spec: \<open>listUtils.ts\<close> (\<open>binarySearch\<close>, \<open>getSurroundingElements\<close>,
  \<open>listInsert\<close>, \<open>listRemove\<close>) is imported by \<open>track.ts\<close> and is not among the sources.
  The spec: a standard binary search over the sorted keyframe list returning an insertion
  index; predecessor and successor derived from \<open>index - 1\<close> and \<open>index\<close>; a sorted insert
  without duplicates; the removal of the index entry.
\<close>

definition binarySearch :: "nat list \<Rightarrow> nat \<Rightarrow> nat" where
  "binarySearch xs x = length (takeWhile (\<lambda>y. y < x) xs)"

definition getSurroundingElements :: "nat list \<Rightarrow> nat \<Rightarrow> (nat \<times> nat) option" where
  "getSurroundingElements xs position =
     (if 0 < position \<and> position < length xs
      then Some (xs ! (position - 1), xs ! position) else None)"

definition listInsert :: "nat list \<Rightarrow> nat \<Rightarrow> nat list" where
  "listInsert xs x = (if x \<in> set xs then xs else insort x xs)"

definition listRemove :: "nat list \<Rightarrow> nat \<Rightarrow> nat list" where
  "listRemove xs x = remove1 x xs"

section \<open>Construction and serialization\<close>

text \<open>
  \<open>sanityCheckFeatures\<close>: only the first present element is tested (the callback throws
  \<open>breakException\<close> after it); its index must be its frame.
\<close>

fun firstIndexed :: "nat \<Rightarrow> 'a option list \<Rightarrow> (nat \<times> 'a) option" where
  "firstIndexed i [] = None"
| "firstIndexed i (None # xs) = firstIndexed (Suc i) xs"
| "firstIndexed i (Some x # xs) = Some (i, x)"

definition sanityCheckFeatures :: "Feature option list \<Rightarrow> error option" where
  "sanityCheckFeatures fs =
     (case firstIndexed 0 fs of
        None \<Rightarrow> None
      | Some (i, f) \<Rightarrow> if frame f \<noteq> i then Some SparseArrayError else None)"

text \<open>
  \<open>repopulateInterpolatedFrames\<close>: the index collects the frames of the features with
  \<open>keyframe\<close> and \<open>bounds\<close>; a feature with one and not the other raises.
\<close>

fun repopulateInterpolatedFrames :: "Feature list \<Rightarrow> error + nat list" where
  "repopulateInterpolatedFrames [] = Inr []"
| "repopulateInterpolatedFrames (f # fs) =
     (if truthy (keyframe f) \<noteq> (bounds f \<noteq> None) then Inl KeyframeXorBounds
      else (case repopulateInterpolatedFrames fs of
              Inl e \<Rightarrow> Inl e
            | Inr ix \<Rightarrow> Inr (if truthy (keyframe f) \<and> bounds f \<noteq> None then frame f # ix else ix)))"

text \<open>
  The constructor, with every parameter given (the defaults are \<open>meta = {}\<close>,
  \<open>begin = Infinity\<close>, \<open>end = 0\<close>, \<open>features = []\<close>, \<open>confidencePairs = []\<close>,
  \<open>attributes = {}\<close>, no notifier). The revision starts at 1.
\<close>

definition newTrack ::
  "int \<Rightarrow> StringKeyObject \<Rightarrow> enat \<Rightarrow> nat \<Rightarrow> Feature option list \<Rightarrow> ConfidencePair list \<Rightarrow>
   StringKeyObject \<Rightarrow> bool \<Rightarrow> error + Track" where
  "newTrack tid m b e fs cps attrs n =
     (case sanityCheckFeatures fs of
        Some err \<Rightarrow> Inl err
      | None \<Rightarrow>
          (case repopulateInterpolatedFrames (present fs) of
             Inl err \<Rightarrow> Inl err
           | Inr ix \<Rightarrow>
               Inr \<lparr>trackId = tid, meta = m, trackAttributes = attrs, confidencePairs = cps,
                    features = fs, featureIndex = ix, beginT = b, endT = e, revision = 1,
                    notifier = n, notified = []\<rparr>))"

text \<open>\<open>new Track(trackId, {})\<close>: all defaults.\<close>

definition emptyTrack :: "int \<Rightarrow> Track" where
  "emptyTrack tid =
     \<lparr>trackId = tid, meta = [], trackAttributes = [], confidencePairs = [],
      features = [], featureIndex = [], beginT = \<infinity>, endT = 0, revision = 1,
      notifier = False, notified = []\<rparr>"

text \<open>\<open>{keyframe: true, ...f}\<close>: \<open>keyframe\<close> is \<open>true\<close> unless \<open>f\<close> has a value of its own.\<close>

definition defaultKeyframe :: "Feature \<Rightarrow> Feature" where
  "defaultKeyframe f = (case keyframe f of None \<Rightarrow> f\<lparr>keyframe := Some True\<rparr> | Some _ \<Rightarrow> f)"

text \<open>
  \<open>fromJSON\<close>: every feature of the dense list is stored at the index of its frame, in list
  order. \<open>parseInt(json.trackId.toString(), 10)\<close> is the identity on the integers modelled.
\<close>

definition sparseFeatures :: "Feature list \<Rightarrow> Feature option list" where
  "sparseFeatures fs = foldl (\<lambda>acc f. setAt acc (frame f) (defaultKeyframe f)) [] fs"

definition fromJSON :: "TrackData \<Rightarrow> error + Track" where
  "fromJSON json =
     newTrack (json_trackId json)
       (case json_meta json of None \<Rightarrow> [] | Some m \<Rightarrow> m)
       (json_begin json) (json_end json)
       (sparseFeatures (json_features json))
       (json_confidencePairs json) (json_attributes json) False"

definition condenseFeatures :: "Track \<Rightarrow> Feature list" where
  "condenseFeatures t = present (features t)"

definition serialize :: "Track \<Rightarrow> TrackData" where
  "serialize t =
     \<lparr>json_trackId = trackId t, json_meta = Some (meta t),
      json_attributes = trackAttributes t, json_confidencePairs = confidencePairs t,
      json_features = condenseFeatures t, json_begin = beginT t, json_end = endT t\<rparr>"

section \<open>Notification and bounds\<close>

definition isInitialized :: "Track \<Rightarrow> bool" where
  "isInitialized t = (length (featureIndex t) > 0)"

text \<open>
  \<open>get length()\<close>: \<open>(end - begin) + 1\<close>; \<open>None\<close> stands for the value \<open>-Infinity\<close> of a
  track whose \<open>begin\<close> is \<open>Infinity\<close>.
\<close>

definition lengthT :: "Track \<Rightarrow> int option" where
  "lengthT t = (case beginT t of enat b \<Rightarrow> Some (int (endT t) - int b + 1) | \<infinity> \<Rightarrow> None)"

text \<open>\<open>notify\<close>: nothing is broadcast, and the revision stays, until the index has an entry.\<close>

definition notify :: "Track \<Rightarrow> string \<Rightarrow> OldValue \<Rightarrow> Track" where
  "notify t name oldValue =
     (if isInitialized t
      then t\<lparr>revision := revision t + 1,
             notified := (if notifier t then notified t @ [(name, oldValue)] else notified t)\<rparr>
      else t)"

definition maybeExpandBounds :: "Track \<Rightarrow> nat \<Rightarrow> Track" where
  "maybeExpandBounds t fr =
     (if enat fr < beginT t
      then notify (t\<lparr>beginT := enat fr\<rparr>) ''bounds'' (OldBounds (beginT t) (endT t))
      else if fr > endT t
      then notify (t\<lparr>endT := fr\<rparr>) ''bounds'' (OldBounds (beginT t) (endT t))
      else t)"

text \<open>
  \<open>getNextKeyframe(frame)\<close>: \<open>this.features.slice(frame).find((a) => a)?.frame\<close>. Its
  arguments are \<open>begin + 1\<close> and a frame, so a frame or \<open>Infinity\<close>; \<open>slice(Infinity)\<close> is empty.
\<close>

definition getNextKeyframe :: "Track \<Rightarrow> enat \<Rightarrow> nat option" where
  "getNextKeyframe t fr =
     (case fr of
        enat n \<Rightarrow> map_option frame (firstPresent (slice (features t) (int n) (int (length (features t)))))
      | \<infinity> \<Rightarrow> None)"

text \<open>
  \<open>getPreviousKeyframe(frame)\<close>: \<open>this.features.slice(0, frame + 1).reverse().find((a) => a)?.frame\<close>.
  Its arguments are \<open>end - 1\<close> and \<open>frame - 1\<close>, integers from \<open>-1\<close> on.
\<close>

definition getPreviousKeyframe :: "Track \<Rightarrow> int \<Rightarrow> nat option" where
  "getPreviousKeyframe t fr =
     map_option frame (firstPresent (rev (slice (features t) 0 (fr + 1))))"

definition maybeShrinkBounds :: "Track \<Rightarrow> enat \<Rightarrow> Track" where
  "maybeShrinkBounds t fr =
     (if fr = beginT t
      then (case getNextKeyframe t (beginT t + 1) of
              None \<Rightarrow> notify (t\<lparr>beginT := \<infinity>, endT := 0\<rparr>) ''bounds'' (OldBounds (beginT t) (endT t))
            | Some nextFrame \<Rightarrow>
                notify (t\<lparr>beginT := enat nextFrame\<rparr>) ''bounds'' (OldBounds (beginT t) (endT t)))
      else if fr = enat (endT t)
      then (case getPreviousKeyframe t (int (endT t) - 1) of
              None \<Rightarrow> notify (t\<lparr>endT := 0, beginT := \<infinity>\<rparr>) ''bounds'' (OldBounds (beginT t) (endT t))
            | Some previousFrame \<Rightarrow>
                notify (t\<lparr>endT := previousFrame\<rparr>) ''bounds'' (OldBounds (beginT t) (endT t)))
      else t)"

section \<open>Queries\<close>


definition roundJS :: "rat \<Rightarrow> rat" where
  "roundJS x = of_int \<lfloor>x + 1 / 2\<rfloor>"

text \<open>
  \<open>Track.interpolate(frame, d0, d1)\<close>. With \<open>d1.frame = d0.frame\<close> the division yields
  \<open>NaN\<close> or \<open>Infinity\<close>, which the rationals do not have: the model reports \<open>NonFinite\<close>.
\<close>

definition blend :: "rat \<Rightarrow> rat \<Rightarrow> RectBounds \<Rightarrow> RectBounds \<Rightarrow> RectBounds" where
  "blend a b d0bounds d1bounds =
     (case (d0bounds, d1bounds) of
        ((p0, p1, p2, p3), (q0, q1, q2, q3)) \<Rightarrow>
          (p0 * a + q0 * b, p1 * a + q1 * b, p2 * a + q2 * b, p3 * a + q3 * b))"

definition interpolateT :: "nat \<Rightarrow> Feature \<Rightarrow> Feature \<Rightarrow> error + Feature option" where
  "interpolateT fr d0 d1 =
     (if \<not> truthy (interpolate d0) then Inr None
      else if frame d1 = frame d0 then Inl NonFinite
      else
        (let len = rat_of_nat (frame d1) - rat_of_nat (frame d0);
             b = \<bar>(rat_of_nat fr - rat_of_nat (frame d0)) / len\<bar>;
             a = 1 - b
         in (case (bounds d0, bounds d1) of
               (Some d0bounds, Some d1bounds) \<Rightarrow>
                 Inr (Some \<lparr>frame = fr, flick = None, interpolate = Some True,
                            keyframe = Some (b = 0 \<or> a = 0),
                            bounds = Some (blend a b d0bounds d1bounds), geometry = None,
                            fishLength = None, attributes = None, head = None, tail = None\<rparr>)
             | _ \<Rightarrow> Inl BoundsMissing)))"

text \<open>
  \<open>getFeature(frame)\<close>: the 3-tuple \<open>[exact, previous keyframe, next keyframe]\<close>. Reading a
  property of \<open>undefined\<close> (an index entry with no feature) is a \<open>TypeError\<close>.
\<close>

definition featureAtBegin :: "Track \<Rightarrow> Feature option" where
  "featureAtBegin t = (case beginT t of enat b \<Rightarrow> getAt (features t) b | \<infinity> \<Rightarrow> None)"

definition getFeature ::
  "Track \<Rightarrow> nat \<Rightarrow> error + (Feature option \<times> Feature option \<times> Feature option)" where
  "getFeature t fr =
     (case getAt (features t) fr of
        Some maybeFrame \<Rightarrow> Inr (Some maybeFrame, Some maybeFrame, Some maybeFrame)
      | None \<Rightarrow>
          if enat fr < beginT t \<or> fr > endT t
          then (if enat fr \<le> beginT t then Inr (None, featureAtBegin t, None)
                else Inr (None, None, getAt (features t) (endT t)))
          else
            (case getSurroundingElements (featureIndex t) (binarySearch (featureIndex t) fr) of
               Some (i0, i1) \<Rightarrow>
                 (case (getAt (features t) i0, getAt (features t) i1) of
                    (Some d0, Some d1) \<Rightarrow>
                      (case interpolateT fr d0 d1 of
                         Inl e \<Rightarrow> Inl e
                       | Inr r \<Rightarrow> Inr (r, Some d0, Some d1))
                  | _ \<Rightarrow> Inl TypeError)
             | None \<Rightarrow>
                 if length (featureIndex t) \<noteq> 0 then Inl BoundsMisaligned
                 else Inr (None, None, None)))"

text \<open>
  \<open>canInterpolate(frame)\<close>: the tuple of \<open>getFeature\<close> and
  \<open>real?.interpolate || lower?.interpolate || (!lower && (upper?.interpolate || false))\<close>,
  kept as its truth value.
\<close>

definition flagOf :: "Feature option \<Rightarrow> bool" where
  "flagOf x = (case x of None \<Rightarrow> False | Some f \<Rightarrow> truthy (interpolate f))"

definition canInterpolate ::
  "Track \<Rightarrow> nat \<Rightarrow> error + ((Feature option \<times> Feature option \<times> Feature option) \<times> bool)" where
  "canInterpolate t fr =
     (case getFeature t fr of
        Inl e \<Rightarrow> Inl e
      | Inr (exact, lower, upper) \<Rightarrow>
          Inr ((exact, lower, upper),
               flagOf exact \<or> flagOf lower \<or> (lower = None \<and> flagOf upper)))"

section \<open>The threshold filter\<close>

text \<open>
  \<open>trackExceedsThreshold\<close>. \<open>x || y\<close> on a number takes \<open>y\<close> when \<open>x\<close> is absent or \<open>0\<close>.
\<close>

definition orElseNum :: "rat option \<Rightarrow> rat \<Rightarrow> rat" where
  "orElseNum x y = (case x of None \<Rightarrow> y | Some v \<Rightarrow> if v = 0 then y else v)"

definition trackExceedsThreshold ::
  "ConfidencePair list \<Rightarrow> (string \<rightharpoonup> rat) \<Rightarrow> ConfidencePair list" where
  "trackExceedsThreshold pairs thresholds =
     (let defaultThresh = orElseNum (thresholds ''default'') 0
      in filter (\<lambda>(name, v). v \<ge> orElseNum (thresholds name) defaultThresh) pairs)"

section \<open>Mutations\<close>

text \<open>\<open>{...f, ...feature}\<close>: a field of \<open>feature\<close> wins where it is present.\<close>

definition orElse :: "'a option \<Rightarrow> 'a option \<Rightarrow> 'a option" where
  "orElse x y = (case x of None \<Rightarrow> y | Some v \<Rightarrow> Some v)"

definition spread :: "Feature option \<Rightarrow> Feature \<Rightarrow> Feature" where
  "spread old feature =
     (case old of
        None \<Rightarrow> feature
      | Some f \<Rightarrow>
          \<lparr>frame = frame feature,
           flick = orElse (flick feature) (flick f),
           interpolate = orElse (interpolate feature) (interpolate f),
           keyframe = orElse (keyframe feature) (keyframe f),
           bounds = orElse (bounds feature) (bounds f),
           geometry = orElse (geometry feature) (geometry f),
           fishLength = orElse (fishLength feature) (fishLength f),
           attributes = orElse (attributes feature) (attributes f),
           head = orElse (head feature) (head f),
           tail = orElse (tail feature) (tail f)\<rparr>)"

definition roundBounds :: "RectBounds \<Rightarrow> RectBounds" where
  "roundBounds r = (case r of (x0, x1, x2, x3) \<Rightarrow> (roundJS x0, roundJS x1, roundJS x2, roundJS x3))"

text \<open>The object \<open>setFeature\<close> writes to \<open>features[feature.frame]\<close>, bounds rounded.\<close>

definition storeFeature :: "Feature option \<Rightarrow> Feature \<Rightarrow> Feature" where
  "storeFeature old feature =
     (case bounds feature of
        None \<Rightarrow> spread old feature
      | Some r \<Rightarrow> (spread old feature)\<lparr>bounds := Some (roundBounds r)\<rparr>)"

text \<open>
  The geometry loop of \<open>setFeature\<close>: a patch replaces the first shape with its type and,
  when the patch has a key, its key; otherwise it is appended.
\<close>

fun findIndex :: "('a \<Rightarrow> bool) \<Rightarrow> 'a list \<Rightarrow> nat option" where
  "findIndex P [] = None"
| "findIndex P (x # xs) = (if P x then Some 0 else map_option Suc (findIndex P xs))"

definition geoMatch :: "GeoFeature \<Rightarrow> GeoFeature \<Rightarrow> bool" where
  "geoMatch geo item =
     ((gkey geo = None \<or> gkey geo = Some [] \<or> gkey item = gkey geo) \<and> gtype item = gtype geo)"

definition applyPatch :: "GeoFeature list \<Rightarrow> GeoFeature \<Rightarrow> GeoFeature list" where
  "applyPatch fg geo =
     (case findIndex (geoMatch geo) fg of Some i \<Rightarrow> fg[i := geo] | None \<Rightarrow> fg @ [geo])"

definition patchGeometry :: "GeoFeature list \<Rightarrow> GeoFeature list \<Rightarrow> GeoFeature list" where
  "patchGeometry geos fg = foldl applyPatch fg geos"


definition writeGeometry :: "Track \<Rightarrow> nat \<Rightarrow> Feature \<Rightarrow> GeoFeature list \<Rightarrow> Track" where
  "writeGeometry t fr stored fg =
     (if fg \<noteq> [] then t\<lparr>features := setAt (features t) fr (stored\<lparr>geometry := Some fg\<rparr>)\<rparr> else t)"

text \<open>
  The first-feature branch of \<open>setFeature\<close> (\<open>if (this.featureIndex.length === 1)\<close>).
\<close>

definition firstFeatureShrink :: "Track \<Rightarrow> nat \<Rightarrow> Track" where
  "firstFeatureShrink t fr =
     (if length (featureIndex t) = 1
      then (if enat fr \<noteq> beginT t then maybeShrinkBounds t (beginT t)
            else if fr \<noteq> endT t then maybeShrinkBounds t (enat (endT t))
            else t)
      else t)"

text \<open>
  The old value \<open>setFeature\<close> notifies: \<open>f\<close>, or \<open>{}\<close>. When \<open>feature\<close> brings no geometry the
  stored object shares the geometry of \<open>f\<close>, which the loop patches in place.
\<close>

definition oldObserved :: "Feature option \<Rightarrow> Feature \<Rightarrow> GeoFeature list \<Rightarrow> OldValue" where
  "oldObserved f feature fg =
     (case f of
        None \<Rightarrow> OldEmptyObject
      | Some x \<Rightarrow>
          OldFeature (if geometry feature = None \<and> geometry x \<noteq> None
                      then x\<lparr>geometry := Some fg\<rparr> else x))"

text \<open>
  \<open>setFeature(feature, geometry)\<close>, as a function of the effect \<open>patch\<close> of its geometry loop
  on \<open>fg.features\<close>. The result is the error raised, if any, and the track as the call
  leaves it. The feature is written before \<open>keyframe\<close> is tested.
\<close>

definition setFeatureBy ::
  "Track \<Rightarrow> Feature \<Rightarrow> (GeoFeature list \<Rightarrow> GeoFeature list) \<Rightarrow> error option \<times> Track" where
  "setFeatureBy t feature patch =
     (let f = getAt (features t) (frame feature);
          stored = storeFeature f feature;
          t1 = t\<lparr>features := setAt (features t) (frame feature) stored\<rparr>
      in if \<not> truthy (keyframe stored) then (Some KeyframeRequired, t1)
         else
           (let t2 = t1\<lparr>featureIndex := listInsert (featureIndex t1) (frame feature)\<rparr>;
                fg = patch (case geometry stored of None \<Rightarrow> [] | Some g \<Rightarrow> g);
                t3 = writeGeometry t2 (frame feature) stored fg;
                t4 = firstFeatureShrink (maybeExpandBounds t3 (frame feature)) (frame feature)
            in (None, notify t4 ''feature'' (oldObserved f feature fg))))"

definition setFeature :: "Track \<Rightarrow> Feature \<Rightarrow> GeoFeature list \<Rightarrow> error option \<times> Track" where
  "setFeature t feature geos = setFeatureBy t feature (patchGeometry geos)"

definition deleteFeature :: "Track \<Rightarrow> nat \<Rightarrow> Track" where
  "deleteFeature t fr =
     (let feature = getAt (features t) fr;
          t1 = (case feature of
                  Some f \<Rightarrow> if truthy (keyframe f)
                            then t\<lparr>featureIndex := listRemove (featureIndex t) fr\<rparr> else t
                | None \<Rightarrow> t);
          t2 = t1\<lparr>features := deleteAt (features t1) fr\<rparr>
      in notify (maybeShrinkBounds t2 (enat fr)) ''feature''
           (case feature of Some f \<Rightarrow> OldFeature f | None \<Rightarrow> OldUndefined))"

definition isKeyframe :: "Feature option \<Rightarrow> bool" where
  "isKeyframe x = (case x of None \<Rightarrow> False | Some f \<Rightarrow> truthy (keyframe f))"

text \<open>The neighbour \<open>toggleKeyframe\<close> promotes, \<open>interFeature\<close>.\<close>

definition interFeature :: "nat \<Rightarrow> Feature option \<Rightarrow> Feature option \<Rightarrow> Feature option" where
  "interFeature fr lower upper =
     (case upper of
        Some u \<Rightarrow> if fr > frame u then Some u
                  else (case lower of Some l \<Rightarrow> if fr < frame l then Some l else None | None \<Rightarrow> None)
      | None \<Rightarrow> (case lower of Some l \<Rightarrow> if fr < frame l then Some l else None | None \<Rightarrow> None))"

definition toggleKeyframe :: "Track \<Rightarrow> nat \<Rightarrow> error option \<times> Track" where
  "toggleKeyframe t fr =
     (case canInterpolate t fr of
        Inl e \<Rightarrow> (Some e, t)
      | Inr ((exact, lower, upper), _) \<Rightarrow>
          if exact \<noteq> None \<and> lengthT t = Some 1 then (Some OnlyKeyframe, t)
          else if exact \<noteq> None \<and> \<not> isKeyframe exact
          then setFeature t ((the exact)\<lparr>frame := fr, keyframe := Some True\<rparr>) []
          else if (lower \<noteq> None \<or> upper \<noteq> None) \<and> \<not> isKeyframe exact
          then (case interFeature fr lower upper of
                  Some g \<Rightarrow> setFeature t (g\<lparr>frame := fr, keyframe := Some True\<rparr>) []
                | None \<Rightarrow> (None, t))
          else if isKeyframe exact then (None, deleteFeature t fr)
          else (None, t))"



section \<open>Types, attributes and \<open>merge\<close>\<close>

text \<open>
  \<open>setType(trackType, confidenceVal, replace)\<close>. \<open>splice(index, ...)\<close> with \<open>index = -1\<close>
  inserts before the last pair; \<open>sort\<close> is stable (ECMAScript 2019). Below \<open>1\<close> the array is
  changed in place, so the \<open>old\<close> the notifier receives is the array after the change.
\<close>

definition spliceIn :: "ConfidencePair list \<Rightarrow> string \<Rightarrow> rat \<Rightarrow> ConfidencePair list" where
  "spliceIn ps trackType confidenceVal =
     (case findIndex (\<lambda>(a, _). a = trackType) ps of
        Some i \<Rightarrow> ps[i := (trackType, confidenceVal)]
      | None \<Rightarrow> take (length ps - 1) ps @ [(trackType, confidenceVal)] @ drop (length ps - 1) ps)"

definition spliceOut :: "ConfidencePair list \<Rightarrow> string option \<Rightarrow> ConfidencePair list" where
  "spliceOut ps replace =
     (case replace of
        None \<Rightarrow> ps
      | Some r \<Rightarrow>
          if r = [] then ps
          else (case findIndex (\<lambda>(a, _). a = r) ps of
                  Some j \<Rightarrow> take j ps @ drop (Suc j) ps
                | None \<Rightarrow> ps))"

definition setType :: "Track \<Rightarrow> string \<Rightarrow> rat \<Rightarrow> string option \<Rightarrow> Track" where
  "setType t trackType confidenceVal replace =
     (if confidenceVal \<ge> 1
      then notify (t\<lparr>confidencePairs := [(trackType, 1)]\<rparr>) ''confidencePairs''
             (OldPairs (confidencePairs t))
      else
        (let ps = sort_key (\<lambda>p. - snd p)
                    (spliceOut (spliceIn (confidencePairs t) trackType confidenceVal) replace)
         in notify (t\<lparr>confidencePairs := ps\<rparr>) ''confidencePairs'' (OldPairs ps)))"

text \<open>\<open>obj[key] = value\<close> on a string-keyed object, in the order of \<open>Object.entries\<close>.\<close>

fun assign :: "StringKeyObject \<Rightarrow> string \<Rightarrow> jsvalue \<Rightarrow> StringKeyObject" where
  "assign [] k v = [(k, v)]"
| "assign ((k', v') # kvs) k v = (if k' = k then (k, v) # kvs else (k', v') # assign kvs k v)"

definition setAttribute :: "Track \<Rightarrow> string \<Rightarrow> jsvalue \<Rightarrow> Track" where
  "setAttribute t key val =
     notify (t\<lparr>trackAttributes := assign (trackAttributes t) key val\<rparr>) ''attributes''
       (OldAttribute key (map_of (trackAttributes t) key))"

text \<open>
  \<open>merge(others)\<close>: for each other track its confidence pairs, then its features, then its
  attributes. The other tracks are taken to be objects of their own, sharing no array with
  \<open>this\<close>. The error of a \<open>getFeature\<close> or \<open>setFeature\<close> ends the merge where it is.
\<close>

definition mergePair :: "Track \<Rightarrow> ConfidencePair \<Rightarrow> Track" where
  "mergePair t pair =
     (case find (\<lambda>(name, _). name = fst pair) (confidencePairs t) of
        None \<Rightarrow> setType t (fst pair) (snd pair) None
      | Some m \<Rightarrow> if snd m < snd pair then setType t (fst pair) (snd pair) None else t)"



definition mergeAttribute :: "Track \<Rightarrow> string \<times> jsvalue \<Rightarrow> Track" where
  "mergeAttribute t kv =
     (if map_of (trackAttributes t) (fst kv) \<in> {None, Some JNull, Some JUndefined}
      then setAttribute t (fst kv) (snd kv) else t)"


section \<open>Example tracks\<close>

definition keyframeAt :: "nat \<Rightarrow> RectBounds \<Rightarrow> bool option \<Rightarrow> Feature" where
  "keyframeAt n b i =
     \<lparr>frame = n, flick = None, interpolate = i, keyframe = Some True, bounds = Some b,
      geometry = None, fishLength = None, attributes = None, head = None, tail = None\<rparr>"

definition bareFeature :: "nat \<Rightarrow> Feature" where
  "bareFeature n =
     \<lparr>frame = n, flick = None, interpolate = None, keyframe = None, bounds = None,
      geometry = None, fishLength = None, attributes = None, head = None, tail = None\<rparr>"

text \<open>\<open>new Track(tid, {begin: p, end: p})\<close>: a track created on frame \<open>p\<close>, no feature yet.\<close>

definition placeholderTrack :: "int \<Rightarrow> nat \<Rightarrow> Track" where
  "placeholderTrack tid p = (emptyTrack tid)\<lparr>beginT := enat p, endT := p\<rparr>"

text \<open>A track created on frame 5 whose one keyframe is set there.\<close>

definition singleTrack :: Track where
  "singleTrack = snd (setFeature (placeholderTrack 1 5) (keyframeAt 5 (0, 0, 10, 10) None) [])"


text \<open>Keyframes at 10 (interpolating) and 20, \<open>begin = 10\<close>, \<open>end = 20\<close>.\<close>

definition exampleTrack :: Track where
  "exampleTrack =
     (emptyTrack 1)
       \<lparr>features := setAt (setAt [] 10 (keyframeAt 10 (0, 0, 10, 10) (Some True))) 20
                      (keyframeAt 20 (10, 10, 20, 20) None),
        featureIndex := [10, 20], beginT := 10, endT := 20\<rparr>"

section \<open>Well-formed tracks\<close>

text \<open>The frames that hold a feature, ascending.\<close>

definition storedFrames :: "'a option list \<Rightarrow> nat list" where
  "storedFrames xs = filter (\<lambda>i. getAt xs i \<noteq> None) [0..<length xs]"

text \<open>\<open>allStored P xs\<close>: \<open>P i f\<close> for every feature \<open>f\<close> stored at an index \<open>i\<close>.\<close>

definition allStored :: "(nat \<Rightarrow> 'a \<Rightarrow> bool) \<Rightarrow> 'a option list \<Rightarrow> bool" where
  "allStored P xs =
     list_all (\<lambda>(i, x). case x of None \<Rightarrow> True | Some f \<Rightarrow> P i f) (List.enumerate 0 xs)"

section \<open>Example records\<close>





section \<open>Example tracks, continued\<close>


section \<open>The track invariant\<close>

text \<open>Every stored feature sits at the index of its frame and is a keyframe.\<close>

definition keyframesStored :: "Feature option list \<Rightarrow> bool" where
  "keyframesStored xs = allStored (\<lambda>i f. frame f = i \<and> truthy (keyframe f)) xs"

text \<open>
  \<open>begin\<close> and \<open>end\<close> are the first and the last stored frame; a track without features has
  the bounds \<open>Infinity\<close> and \<open>0\<close>, or \<open>begin = end\<close>, the frame it was created on.
\<close>

definition boundsOk :: "Track \<Rightarrow> bool" where
  "boundsOk t =
     (case storedFrames (features t) of
        [] \<Rightarrow> (beginT t = \<infinity> \<and> endT t = 0) \<or> beginT t = enat (endT t)
      | k # ks \<Rightarrow> beginT t = enat k \<and> endT t = last (k # ks))"

definition trackInv :: "Track \<Rightarrow> bool" where
  "trackInv t =
     (keyframesStored (features t) \<and> featureIndex t = storedFrames (features t) \<and> boundsOk t)"







subsection \<open>Merging: examples and the adopted feature\<close>











section \<open>Properties\<close>

subsection \<open>Sparse arrays\<close>


subsection \<open>Interpolation\<close>

text \<open>
  C3. For keyframes \<open>A\<close>, \<open>B\<close> with bounds and \<open>A.frame < B.frame\<close>, \<open>interpolate(f, A, B)\<close> is
  \<open>null\<close> when \<open>A.interpolate\<close> is not \<open>true\<close>; otherwise it is the feature at \<open>f\<close> whose bounds
  are \<open>A.bounds[i] * (1 - b) + B.bounds[i] * b\<close> with \<open>b = |f - A.frame| / (B.frame - A.frame)\<close>,
  with \<open>interpolate = true\<close> and \<open>keyframe\<close> true exactly when \<open>b\<close> is 0 or 1; for
  \<open>A.frame < f < B.frame\<close> neither holds, so \<open>keyframe\<close> is \<open>false\<close>.
\<close>

theorem interpolate_blend:
  assumes "frame A < frame B"
    and "bounds A = Some (p0, p1, p2, p3)" and "bounds B = Some (q0, q1, q2, q3)"
    and "b = \<bar>(rat_of_nat f - rat_of_nat (frame A)) / (rat_of_nat (frame B) - rat_of_nat (frame A))\<bar>"
  shows "interpolateT f A B =
           (if truthy (interpolate A)
            then Inr (Some \<lparr>frame = f, flick = None, interpolate = Some True,
                            keyframe = Some (b = 0 \<or> b = 1),
                            bounds = Some (p0 * (1 - b) + q0 * b, p1 * (1 - b) + q1 * b,
                                           p2 * (1 - b) + q2 * b, p3 * (1 - b) + q3 * b),
                            geometry = None, fishLength = None, attributes = None,
                            head = None, tail = None\<rparr>)
            else Inr None)
         \<and> (frame A < f \<and> f < frame B \<longrightarrow> \<not> (b = 0 \<or> b = 1))"
proof -
  have ne: "frame B \<noteq> frame A" using assms(1) by simp
  have first: "interpolateT f A B =
           (if truthy (interpolate A)
            then Inr (Some \<lparr>frame = f, flick = None, interpolate = Some True,
                            keyframe = Some (b = 0 \<or> b = 1),
                            bounds = Some (p0 * (1 - b) + q0 * b, p1 * (1 - b) + q1 * b,
                                           p2 * (1 - b) + q2 * b, p3 * (1 - b) + q3 * b),
                            geometry = None, fishLength = None, attributes = None,
                            head = None, tail = None\<rparr>)
            else Inr None)"
    using ne assms(2,3,4) by (auto simp: interpolateT_def blend_def Let_def)
  have second: "\<not> (b = 0 \<or> b = 1)" if "frame A < f" "f < frame B"
  proof -
    let ?n = "rat_of_nat f - rat_of_nat (frame A)"
    let ?d = "rat_of_nat (frame B) - rat_of_nat (frame A)"
    have n: "0 < ?n" using that(1) by simp
    have d: "?n < ?d" using that(2) by simp
    have eq: "b = ?n / ?d" using assms(4) n d by simp
    have "0 < ?n / ?d" using n d by simp
    then have pos: "0 < b" unfolding eq .
    have "?n / ?d < 1" using n d by simp
    then have lt: "b < 1" unfolding eq .
    show ?thesis using pos lt by linarith
  qed
  show ?thesis using first second by blast
qed

text \<open>
  The example of C3: keyframes at 10 with bounds \<open>[0, 0, 10, 10]\<close>, interpolating, and at 20
  with bounds \<open>[10, 10, 20, 20]\<close>; \<open>getFeature(15)\<close> is the blend \<open>[5, 5, 15, 15]\<close>, not a keyframe,
  between the two keyframes.
\<close>

theorem interpolate_blend_witness:
  "frame (keyframeAt 10 (0, 0, 10, 10) (Some True)) < frame (keyframeAt 20 (10, 10, 20, 20) None)
   \<and> frame (keyframeAt 10 (0, 0, 10, 10) (Some True)) < 15
   \<and> 15 < frame (keyframeAt 20 (10, 10, 20, 20) None)
   \<and> getFeature exampleTrack 15 =
       Inr (Some \<lparr>frame = 15, flick = None, interpolate = Some True, keyframe = Some False,
                  bounds = Some (5, 5, 15, 15), geometry = None, fishLength = None,
                  attributes = None, head = None, tail = None\<rparr>,
            Some (keyframeAt 10 (0, 0, 10, 10) (Some True)),
            Some (keyframeAt 20 (10, 10, 20, 20) None))"
proof -
  have i: "interpolateT 15 (keyframeAt 10 (0, 0, 10, 10) (Some True))
             (keyframeAt 20 (10, 10, 20, 20) None) =
           Inr (Some \<lparr>frame = 15, flick = None, interpolate = Some True, keyframe = Some False,
                  bounds = Some (5, 5, 15, 15), geometry = None, fishLength = None,
                  attributes = None, head = None, tail = None\<rparr>)"
    using interpolate_blend[of "keyframeAt 10 (0, 0, 10, 10) (Some True)"
        "keyframeAt 20 (10, 10, 20, 20) None" 0 0 10 10 10 10 20 20 "1 / 2" 15]
    by (simp add: keyframeAt_def truthy_def)
  have fs: "features exampleTrack =
      replicate 10 None @ [Some (keyframeAt 10 (0, 0, 10, 10) (Some True))] @ replicate 9 None
      @ [Some (keyframeAt 20 (10, 10, 20, 20) None)]"
    by (simp add: exampleTrack_def setAt_def eval_nat_numeral)
  have g10: "getAt (features exampleTrack) 10 = Some (keyframeAt 10 (0, 0, 10, 10) (Some True))"
    and g20: "getAt (features exampleTrack) 20 = Some (keyframeAt 20 (10, 10, 20, 20) None)"
    and g15: "getAt (features exampleTrack) 15 = None"
    by (simp_all add: fs getAt_def eval_nat_numeral nth_append)
  have b: "beginT exampleTrack = enat 10" "endT exampleTrack = 20"
    "featureIndex exampleTrack = [10, 20]"
    by (simp_all add: exampleTrack_def numeral_eq_enat)
  have g: "getFeature exampleTrack 15 =
       Inr (Some \<lparr>frame = 15, flick = None, interpolate = Some True, keyframe = Some False,
                  bounds = Some (5, 5, 15, 15), geometry = None, fishLength = None,
                  attributes = None, head = None, tail = None\<rparr>,
            Some (keyframeAt 10 (0, 0, 10, 10) (Some True)),
            Some (keyframeAt 20 (10, 10, 20, 20) None))"
    by (simp add: getFeature_def g10 g20 g15 b i binarySearch_def getSurroundingElements_def)
  show ?thesis using g by (simp add: keyframeAt_def)
qed

subsection \<open>The threshold filter\<close>

text \<open>
  C9. The claim: a label listed in \<open>thresholds\<close> is filtered by its own threshold, and
  \<open>thresholds.default\<close> serves the unlisted labels only. With \<open>{fish: 0, default: 0.5}\<close> the
  pair \<open>['fish', 0.3]\<close> reaches its listed threshold \<open>0\<close>, and the code drops it: \<open>||\<close> takes a
  listed \<open>0\<close> for an absent entry and compares with the default.
\<close>

theorem trackExceedsThreshold_zero_listed:
  "trackExceedsThreshold [(''fish'', 3 / 10)] [''fish'' \<mapsto> 0, ''default'' \<mapsto> 1 / 2] = []"
  by code_simp

text \<open>The example of the spec, and the filter when no listed threshold is \<open>0\<close>.\<close>

lemma trackExceedsThreshold_example:
  "trackExceedsThreshold [(''fish'', 3 / 5), (''shark'', 3 / 10)]
     [''fish'' \<mapsto> 1 / 2, ''default'' \<mapsto> 2 / 5] = [(''fish'', 3 / 5)]"
  by code_simp

lemma trackExceedsThreshold_nonzero:
  assumes "\<forall>name x. thresholds name = Some x \<longrightarrow> x \<noteq> 0"
  shows "trackExceedsThreshold pairs thresholds =
    filter (\<lambda>(name, v). v \<ge> (case thresholds name of Some x \<Rightarrow> x
                | None \<Rightarrow> (case thresholds ''default'' of Some d \<Rightarrow> d | None \<Rightarrow> 0))) pairs"
proof -
  have "orElseNum (thresholds name) (orElseNum (thresholds ''default'') 0) =
      (case thresholds name of Some x \<Rightarrow> x
                | None \<Rightarrow> (case thresholds ''default'' of Some d \<Rightarrow> d | None \<Rightarrow> 0))" for name
    using assms by (auto simp: orElseNum_def split: option.splits)
  then show ?thesis by (simp add: trackExceedsThreshold_def)
qed

subsection \<open>\<open>setFeature\<close> and the keyframe invariant\<close>

text \<open>
  C1. The claim: in every reachable state a stored feature has \<open>keyframe = true\<close> exactly when
  it has bounds. \<open>setFeature\<close> tests \<open>keyframe\<close> only: on a new track,
  \<open>setFeature({frame: 5, keyframe: true})\<close> succeeds and stores a keyframe without bounds, a
  state which the constructor refuses (\<open>keyframe must not XOR bounds\<close>) when the serialized
  track is loaded again.
\<close>

theorem setFeature_keyframe_without_bounds:
  "fst (setFeature (emptyTrack 0) ((bareFeature 5)\<lparr>keyframe := Some True\<rparr>) []) = None
   \<and> getAt (features (snd (setFeature (emptyTrack 0) ((bareFeature 5)\<lparr>keyframe := Some True\<rparr>) []))) 5
       = Some ((bareFeature 5)\<lparr>keyframe := Some True\<rparr>)
   \<and> bounds ((bareFeature 5)\<lparr>keyframe := Some True\<rparr>) = None
   \<and> fromJSON (serialize (snd (setFeature (emptyTrack 0) ((bareFeature 5)\<lparr>keyframe := Some True\<rparr>) [])))
       = Inl KeyframeXorBounds"
  by code_simp

text \<open>
  C6. The claim: a call that raises leaves the track as it was. \<open>setFeature\<close> writes
  \<open>features[frame]\<close> before it tests \<open>keyframe\<close>: on a track whose keyframe is at 5,
  \<open>setFeature({frame: 5, keyframe: false})\<close> raises, and the stored feature is then no
  keyframe any more, while the index still lists frame 5.
\<close>

theorem setFeature_failure_mutates:
  "getAt (features singleTrack) 5 = Some (keyframeAt 5 (0, 0, 10, 10) None)
   \<and> fst (setFeature singleTrack ((bareFeature 5)\<lparr>keyframe := Some False\<rparr>) []) = Some KeyframeRequired
   \<and> getAt (features (snd (setFeature singleTrack ((bareFeature 5)\<lparr>keyframe := Some False\<rparr>) []))) 5
       = Some ((keyframeAt 5 (0, 0, 10, 10) None)\<lparr>keyframe := Some False\<rparr>)
   \<and> featureIndex (snd (setFeature singleTrack ((bareFeature 5)\<lparr>keyframe := Some False\<rparr>) [])) = [5]
   \<and> snd (setFeature singleTrack ((bareFeature 5)\<lparr>keyframe := Some False\<rparr>) []) \<noteq> singleTrack"
  by code_simp

subsection \<open>\<open>toggleKeyframe\<close> on the only keyframe\<close>

text \<open>
  C8. On a track of length 1 (\<open>begin = end\<close>) that has a feature at that frame,
  \<open>toggleKeyframe\<close> at the frame raises, and the track is as before.
\<close>

theorem toggleKeyframe_only_keyframe:
  assumes "getAt (features t) fr = Some f" and "beginT t = enat fr" and "endT t = fr"
  shows "toggleKeyframe t fr = (Some OnlyKeyframe, t)"
  using assms by (simp add: toggleKeyframe_def canInterpolate_def getFeature_def lengthT_def)

theorem toggleKeyframe_only_keyframe_witness:
  "getAt (features singleTrack) 5 = Some (keyframeAt 5 (0, 0, 10, 10) None)
   \<and> beginT singleTrack = enat 5 \<and> endT singleTrack = 5 \<and> featureIndex singleTrack = [5]
   \<and> toggleKeyframe singleTrack 5 = (Some OnlyKeyframe, singleTrack)"
proof -
  have a: "getAt (features singleTrack) 5 = Some (keyframeAt 5 (0, 0, 10, 10) None)" by code_simp
  have b: "beginT singleTrack = enat 5" by code_simp
  have c: "endT singleTrack = 5" by code_simp
  have d: "featureIndex singleTrack = [5]" by code_simp
  show ?thesis using toggleKeyframe_only_keyframe[OF a b c] a b c d by simp
qed

subsection \<open>\<open>deleteFeature\<close> where no feature is\<close>



subsection \<open>Sparse arrays, continued\<close>

lemma getAt_Nil [simp]: "getAt [] i = None"
  by (simp add: getAt_def)

lemma length_setAt: "length (setAt xs i v) = max (length xs) (Suc i)"
  by (auto simp: setAt_def)

lemma getAt_setAt: "getAt (setAt xs i v) j = (if j = i then Some v else getAt xs j)"
  by (auto simp: getAt_def setAt_def nth_list_update nth_append)








lemma sorted_storedFrames: "sorted (storedFrames xs)" "distinct (storedFrames xs)"
  by (simp_all add: storedFrames_def sorted_wrt_filter)

lemma set_storedFrames: "set (storedFrames xs) = {i. getAt xs i \<noteq> None}"
  by (auto simp: storedFrames_def getAt_def)


lemma frame_defaultKeyframe [simp]: "frame (defaultKeyframe f) = frame f"
  by (simp add: defaultKeyframe_def split: option.splits)

lemma bounds_defaultKeyframe [simp]: "bounds (defaultKeyframe f) = bounds f"
  by (simp add: defaultKeyframe_def split: option.splits)


















subsection \<open>The round trip through \<open>fromJSON\<close> and \<open>serialize\<close>\<close>




subsection \<open>Searching the sparse array\<close>


















subsection \<open>\<open>split\<close>\<close>



subsection \<open>Bounds under \<open>setFeature\<close> and \<open>deleteFeature\<close>\<close>




lemma notify_fields [simp]:
  "features (notify t n v) = features t" "featureIndex (notify t n v) = featureIndex t"
  "beginT (notify t n v) = beginT t" "endT (notify t n v) = endT t"
  by (simp_all add: notify_def)

lemma getNextKeyframe_features:
  "features t' = features t \<Longrightarrow> getNextKeyframe t' n = getNextKeyframe t n"
  by (cases n) (simp_all add: getNextKeyframe_def)

lemma getPreviousKeyframe_features:
  "features t' = features t \<Longrightarrow> getPreviousKeyframe t' n = getPreviousKeyframe t n"
  by (simp add: getPreviousKeyframe_def)

lemma maybeExpandBounds_fields [simp]:
  "features (maybeExpandBounds t fr) = features t"
  "featureIndex (maybeExpandBounds t fr) = featureIndex t"
  by (simp_all add: maybeExpandBounds_def)


lemma maybeShrinkBounds_fields [simp]:
  "features (maybeShrinkBounds t fr) = features t"
  "featureIndex (maybeShrinkBounds t fr) = featureIndex t"
  by (simp_all add: maybeShrinkBounds_def split: option.splits)



lemma firstFeatureShrink_fields [simp]:
  "features (firstFeatureShrink t fr) = features t"
  "featureIndex (firstFeatureShrink t fr) = featureIndex t"
  by (simp_all add: firstFeatureShrink_def)

lemma storedFrames_setAt: "storedFrames (setAt xs i v) = listInsert (storedFrames xs) i"
proof (rule sorted_distinct_set_unique)
  show "sorted (storedFrames (setAt xs i v))" "distinct (storedFrames (setAt xs i v))"
    by (rule sorted_storedFrames)+
  show "sorted (listInsert (storedFrames xs) i)"
    by (simp add: listInsert_def sorted_insort sorted_storedFrames)
  show "distinct (listInsert (storedFrames xs) i)"
    by (simp add: listInsert_def distinct_insort sorted_storedFrames)
  show "set (storedFrames (setAt xs i v)) = set (listInsert (storedFrames xs) i)"
    by (auto simp: set_storedFrames getAt_setAt listInsert_def set_insort_key)
qed


lemma listInsert_idem: "listInsert (listInsert xs i) i = listInsert xs i"
  by (simp add: listInsert_def set_insort_key)










lemma frame_storeFeature [simp]: "frame (storeFeature old feature) = frame feature"
  by (simp add: storeFeature_def spread_def split: option.splits)

lemma writeGeometry_fields [simp]:
  "featureIndex (writeGeometry t fr stored fg) = featureIndex t"
  "beginT (writeGeometry t fr stored fg) = beginT t"
  "endT (writeGeometry t fr stored fg) = endT t"
  by (simp_all add: writeGeometry_def)










lemma trackInv_emptyTrack: "trackInv (emptyTrack tid)"
  by (simp add: trackInv_def emptyTrack_def keyframesStored_def allStored_def boundsOk_def
      storedFrames_def)




text \<open>
  The case left aside: on \<open>new Track(0, {})\<close> the first keyframe, at frame 5, lowers \<open>begin\<close> to
  5, and the first-feature branch then shrinks at \<open>end = 0\<close>, where no earlier keyframe is: the
  bounds are \<open>Infinity\<close> and \<open>0\<close> again, with the index \<open>[5]\<close>.
\<close>

lemma setFeature_first_on_sentinel:
  "fst (setFeature (emptyTrack 0) (keyframeAt 5 (0, 0, 1, 1) None) []) = None
   \<and> featureIndex (snd (setFeature (emptyTrack 0) (keyframeAt 5 (0, 0, 1, 1) None) [])) = [5]
   \<and> beginT (snd (setFeature (emptyTrack 0) (keyframeAt 5 (0, 0, 1, 1) None) [])) = \<infinity>
   \<and> endT (snd (setFeature (emptyTrack 0) (keyframeAt 5 (0, 0, 1, 1) None) [])) = 0"
  by code_simp

subsection \<open>\<open>merge\<close>\<close>




lemma setType_fields [simp]:
  "features (setType t ty c r) = features t" "featureIndex (setType t ty c r) = featureIndex t"
  "beginT (setType t ty c r) = beginT t" "endT (setType t ty c r) = endT t"
  by (simp_all add: setType_def Let_def)

lemma setAttribute_fields [simp]:
  "features (setAttribute t k v) = features t" "featureIndex (setAttribute t k v) = featureIndex t"
  "beginT (setAttribute t k v) = beginT t" "endT (setAttribute t k v) = endT t"
  by (simp_all add: setAttribute_def)

lemma mergePair_fields [simp]:
  "features (mergePair t p) = features t" "featureIndex (mergePair t p) = featureIndex t"
  "beginT (mergePair t p) = beginT t" "endT (mergePair t p) = endT t"
  by (simp_all add: mergePair_def split: option.splits)

lemma mergeAttribute_fields [simp]:
  "features (mergeAttribute t kv) = features t"
  "featureIndex (mergeAttribute t kv) = featureIndex t"
  "beginT (mergeAttribute t kv) = beginT t" "endT (mergeAttribute t kv) = endT t"
  by (simp_all add: mergeAttribute_def)

lemma foldl_mergePair_fields [simp]:
  "features (foldl mergePair t ps) = features t"
  "featureIndex (foldl mergePair t ps) = featureIndex t"
  "beginT (foldl mergePair t ps) = beginT t" "endT (foldl mergePair t ps) = endT t"
  by (induction ps arbitrary: t) simp_all

lemma foldl_mergeAttribute_fields [simp]:
  "features (foldl mergeAttribute t kvs) = features t"
  "featureIndex (foldl mergeAttribute t kvs) = featureIndex t"
  "beginT (foldl mergeAttribute t kvs) = beginT t" "endT (foldl mergeAttribute t kvs) = endT t"
  by (induction kvs arbitrary: t) simp_all

lemma getFeature_cong:
  assumes "features t' = features t" "featureIndex t' = featureIndex t"
    "beginT t' = beginT t" "endT t' = endT t"
  shows "getFeature t' fr = getFeature t fr"
proof -
  have fb: "featureAtBegin t' = featureAtBegin t"
    by (cases "beginT t") (simp_all add: featureAtBegin_def assms)
  show ?thesis unfolding getFeature_def assms fb ..
qed

























end
